theory Spec2Isabelle
  imports Main "HOL-Library.AList"
begin

section \<open>Strings as the source uses them\<close>

text \<open>
  Python \<^verbatim>\<open>str\<close> values are modelled as \<^typ>\<open>string\<close>; one \<^typ>\<open>char\<close> stands for one
  character, so \<^const>\<open>length\<close> is Python's \<^verbatim>\<open>len\<close>.
\<close>

definition isspace :: "char \<Rightarrow> bool" where
  \<comment> \<open>\<^verbatim>\<open>str.isspace\<close> on the characters below 256: TAB..CR, FS..US, space, NEL, NBSP.\<close>
  "isspace c =
     (let n = (of_char c :: nat)
      in (9 \<le> n \<and> n \<le> 13) \<or> (28 \<le> n \<and> n \<le> 32) \<or> n = 133 \<or> n = 160)"

fun split_acc :: "string \<Rightarrow> string \<Rightarrow> string list" where
  \<comment> \<open>the scan behind \<^verbatim>\<open>str.split()\<close>: the first argument is the word being read.\<close>
  "split_acc w [] = (if w = [] then [] else [w])"
| "split_acc w (c # cs) =
     (if isspace c then (if w = [] then split_acc [] cs else w # split_acc [] cs)
      else split_acc (w @ [c]) cs)"

definition split_ws :: "string \<Rightarrow> string list" where
  \<comment> \<open>\<^verbatim>\<open>line.split()\<close>: the maximal runs of non-whitespace, in order.\<close>
  "split_ws s = split_acc [] s"

definition strip :: "string \<Rightarrow> string" where
  \<comment> \<open>\<^verbatim>\<open>s.strip()\<close>: leading and trailing whitespace removed.\<close>
  "strip s = rev (dropWhile isspace (rev (dropWhile isspace s)))"

fun join :: "string \<Rightarrow> string list \<Rightarrow> string" where
  \<comment> \<open>\<^verbatim>\<open>sep.join(xs)\<close>\<close>
  "join sep [] = []"
| "join sep [x] = x"
| "join sep (x # y # ys) = x @ sep @ join sep (y # ys)"

section \<open>word\_wrap\<close>

text \<open>
  The loop of \<^verbatim>\<open>word_wrap\<close> carries \<^verbatim>\<open>lines\<close> and \<^verbatim>\<open>cur_line\<close>
  (\<^verbatim>\<open>cur_len\<close> is assigned once and never read). \<^verbatim>\<open>"%s %s" % (cur_line, word)\<close> is
  \<open>cur_line @ '' '' @ word\<close>, also when \<^verbatim>\<open>cur_line\<close> is empty.
\<close>

fun word_wrap_loop :: "int \<Rightarrow> string list \<Rightarrow> string list \<times> string \<Rightarrow> string list \<times> string" where
  "word_wrap_loop max_len [] (lines, cur_line) = (lines, cur_line)"
| "word_wrap_loop max_len (word # ws) (lines, cur_line) =
     (if int (length (cur_line @ '' '' @ word)) < max_len
      then word_wrap_loop max_len ws (lines, strip (cur_line @ '' '' @ word))
      else word_wrap_loop max_len ws
             (if cur_line \<noteq> [] then lines @ [cur_line] else lines, word))"

definition word_wrap :: "string \<Rightarrow> int \<Rightarrow> string list" where
  "word_wrap line max_len =
     (case word_wrap_loop max_len (split_ws line) ([], []) of
        (lines, cur_line) \<Rightarrow> if cur_line \<noteq> [] then lines @ [cur_line] else lines)"

section \<open>Dates, times and durations\<close>

text \<open>
  Modelled from the spec: \<^verbatim>\<open>hamster.lib.datetime\<close> (\<^verbatim>\<open>dt\<close> in the source) is not among
  the source files. Its \<^verbatim>\<open>date\<close>, \<^verbatim>\<open>datetime\<close> and \<^verbatim>\<open>timedelta\<close> are modelled by
  the fields and operations the source uses on them: \<^verbatim>\<open>combine\<close>, \<^verbatim>\<open>replace\<close>,
  \<^verbatim>\<open>date()\<close>, \<^verbatim>\<open>strftime\<close>, comparison, addition of durations and \<^verbatim>\<open>format()\<close>.
\<close>

record date =
  year :: nat
  month :: nat
  day :: nat

record datetime =
  date_part :: date
  hour :: nat
  minute :: nat
  second :: nat
  microsecond :: nat

type_synonym timedelta = int
  \<comment> \<open>a duration as a whole number of microseconds, negative ones included\<close>

definition time_midnight :: "nat \<times> nat \<times> nat \<times> nat" where
  \<comment> \<open>\<^verbatim>\<open>dt.time()\<close>: hour, minute, second and microsecond all zero\<close>
  "time_midnight = (0, 0, 0, 0)"

definition combine :: "date \<Rightarrow> nat \<times> nat \<times> nat \<times> nat \<Rightarrow> datetime" where
  \<comment> \<open>\<^verbatim>\<open>dt.datetime.combine(d, t)\<close>\<close>
  "combine d t =
     (case t of (h, m, s, us) \<Rightarrow>
        \<lparr>date_part = d, hour = h, minute = m, second = s, microsecond = us\<rparr>)"

definition replace_hms :: "datetime \<Rightarrow> nat \<Rightarrow> nat \<Rightarrow> nat \<Rightarrow> datetime" where
  \<comment> \<open>\<^verbatim>\<open>x.replace(hour=h, minute=m, second=s)\<close>: every other field is kept\<close>
  "replace_hms x h m s = x\<lparr>hour := h, minute := m, second := s\<rparr>"

definition valid_time :: "datetime \<Rightarrow> bool" where
  \<comment> \<open>the ranges a \<^verbatim>\<open>datetime\<close> constructor accepts for the time of day\<close>
  "valid_time x = (hour x < 24 \<and> minute x < 60 \<and> second x < 60 \<and> microsecond x < 1000000)"

fun lex_le :: "nat list \<Rightarrow> nat list \<Rightarrow> bool" where
  "lex_le [] ys = True"
| "lex_le (x # xs) [] = False"
| "lex_le (x # xs) (y # ys) = (x < y \<or> (x = y \<and> lex_le xs ys))"

definition dt_fields :: "datetime \<Rightarrow> nat list" where
  "dt_fields x =
     [year (date_part x), month (date_part x), day (date_part x),
      hour x, minute x, second x, microsecond x]"

definition datetime_le :: "datetime \<Rightarrow> datetime \<Rightarrow> bool" where
  \<comment> \<open>\<^verbatim>\<open>a <= b\<close> on naive datetimes: field by field, most significant first\<close>
  "datetime_le a b = lex_le (dt_fields a) (dt_fields b)"

function show_nat :: "nat \<Rightarrow> string" where
  \<comment> \<open>decimal digits, as \<^verbatim>\<open>%d\<close> prints a non-negative number\<close>
  "show_nat n =
     (if n < 10 then [''0123456789'' ! n]
      else show_nat (n div 10) @ [''0123456789'' ! (n mod 10)])"
  by pat_completeness auto
termination
  by (relation "measure id") auto

definition zfill :: "nat \<Rightarrow> string \<Rightarrow> string" where
  \<comment> \<open>zero padding on the left up to a width, as \<^verbatim>\<open>%02d\<close> does\<close>
  "zfill n s = replicate (n - length s) CHR ''0'' @ s"

definition directive :: "char \<Rightarrow> datetime \<Rightarrow> string" where
  \<comment> \<open>the \<^verbatim>\<open>strftime\<close> directives the source uses; any other one is left as written\<close>
  "directive c x =
     (if c = CHR ''Y'' then zfill 4 (show_nat (year (date_part x)))
      else if c = CHR ''m'' then zfill 2 (show_nat (month (date_part x)))
      else if c = CHR ''d'' then zfill 2 (show_nat (day (date_part x)))
      else if c = CHR ''H'' then zfill 2 (show_nat (hour x))
      else if c = CHR ''M'' then zfill 2 (show_nat (minute x))
      else [CHR ''%'', c])"

fun strftime :: "string \<Rightarrow> datetime \<Rightarrow> string" where
  \<comment> \<open>\<^verbatim>\<open>x.strftime(fmt)\<close>, with the format first\<close>
  "strftime [] x = []"
| "strftime [c] x = [c]"
| "strftime (c # c' # cs) x =
     (if c = CHR ''%'' then directive c' x @ strftime cs x else c # strftime (c' # cs) x)"

definition timedelta_format :: "timedelta \<Rightarrow> string" where
  \<comment> \<open>Modelled from the spec: \<^verbatim>\<open>timedelta.format()\<close> is not among the source files. The
      spec gives the verbose form as hours, \<^verbatim>\<open>h\<close> and two digits of minutes (\<^verbatim>\<open>0h00\<close>,
      \<^verbatim>\<open>1h05\<close>, \<^verbatim>\<open>2h15\<close>) of a non-negative duration.\<close>
  "timedelta_format d =
     (let minutes = nat (d div 60000000)
      in show_nat (minutes div 60) @ ''h'' @ zfill 2 (show_nat (minutes mod 60)))"

section \<open>Facts and their display rows\<close>

text \<open>
  Modelled from the spec: the class \<^verbatim>\<open>Fact\<close> of \<^verbatim>\<open>hamster.lib.fact\<close> is not among the
  source files. A fact is the record of the attributes the source reads; \<^verbatim>\<open>delta\<close> is the
  value the attribute yields when it is read.
\<close>

record fact =
  start_time :: datetime
  end_time :: "datetime option"
  delta :: timedelta
  activity :: string
  category :: string
  tags :: "string list"
  description :: string

datatype key = Activity | Category | Tags | Description | Start | End | Duration

definition fact_dict :: "datetime \<Rightarrow> fact \<Rightarrow> bool \<Rightarrow> key \<Rightarrow> string" where
  \<comment> \<open>\<^verbatim>\<open>fact_dict(fact_data, with_date)\<close>; the first argument is what
      \<^verbatim>\<open>dt.datetime.now()\<close> returns if it is called. The result is the dictionary,
      which holds all seven keys.\<close>
  "fact_dict now fact_data with_date =
     (let fmt = (if with_date then ''%Y-%m-%d %H:%M'' else ''%H:%M'');
          start_cell = strftime fmt (start_time fact_data);
          end_cell = (case end_time fact_data of
                        Some e \<Rightarrow> strftime fmt e
                      | None \<Rightarrow> (let end_date = now in []));
          duration_cell = timedelta_format (delta fact_data);
          tags_cell = (if tags fact_data \<noteq> []
                       then join '' '' (map (\<lambda>tag. ''#'' @ tag) (tags fact_data))
                       else [])
      in (\<lambda>k. case k of
                 Start \<Rightarrow> start_cell
               | End \<Rightarrow> end_cell
               | Duration \<Rightarrow> duration_cell
               | Activity \<Rightarrow> activity fact_data
               | Category \<Rightarrow> category fact_data
               | Tags \<Rightarrow> tags_cell
               | Description \<Rightarrow> description fact_data))"

section \<open>Dictionaries and loops that may raise\<close>

text \<open>
  A \<^verbatim>\<open>dict\<close> whose contents vary is an association list in insertion order:
  \<^const>\<open>AList.update\<close> overwrites in place or appends, as assignment to \<^verbatim>\<open>d[k]\<close> does. Reading
  \<^verbatim>\<open>d[k]\<close> raises \<^verbatim>\<open>KeyError\<close> on a missing key.
\<close>

datatype error = KeyError

definition getitem :: "('k \<times> 'v) list \<Rightarrow> 'k \<Rightarrow> error + 'v" where
  "getitem d k = (case map_of d k of None \<Rightarrow> Inl KeyError | Some v \<Rightarrow> Inr v)"

definition setdefault :: "'k \<Rightarrow> 'v \<Rightarrow> ('k \<times> 'v) list \<Rightarrow> ('k \<times> 'v) list" where
  "setdefault k v d = (case map_of d k of None \<Rightarrow> d @ [(k, v)] | Some _ \<Rightarrow> d)"

fun foldE :: "('a \<Rightarrow> 's \<Rightarrow> error + 's) \<Rightarrow> 'a list \<Rightarrow> 's \<Rightarrow> error + 's" where
  \<comment> \<open>a \<^verbatim>\<open>for\<close> loop over a list, left by the first exception\<close>
  "foldE f [] s = Inr s"
| "foldE f (x # xs) s = (case f x s of Inl e \<Rightarrow> Inl e | Inr s' \<Rightarrow> foldE f xs s')"

fun mapE :: "('a \<Rightarrow> error + 'b) \<Rightarrow> 'a list \<Rightarrow> error + 'b list" where
  \<comment> \<open>a list comprehension, left by the first exception\<close>
  "mapE f [] = Inr []"
| "mapE f (x # xs) =
     (case f x of Inl e \<Rightarrow> Inl e
      | Inr y \<Rightarrow> (case mapE f xs of Inl e \<Rightarrow> Inl e | Inr ys \<Rightarrow> Inr (y # ys)))"

definition sorted_reverse :: "('a \<Rightarrow> 'k::linorder) \<Rightarrow> 'a list \<Rightarrow> 'a list" where
  \<comment> \<open>\<^verbatim>\<open>sorted(xs, key=key, reverse=True)\<close>: the list is reversed, sorted stably in
      ascending order of the key, and reversed again.\<close>
  "sorted_reverse k xs = rev (sort_key k (rev xs))"

section \<open>The report of HamsterCli.\_list\<close>

definition headers :: "(string \<Rightarrow> string) \<Rightarrow> key \<Rightarrow> string" where
  \<comment> \<open>the dictionary \<^verbatim>\<open>headers\<close>; the argument is the translation function \<^verbatim>\<open>_\<close>\<close>
  "headers tr k =
     (case k of
        Activity \<Rightarrow> tr ''Activity''
      | Category \<Rightarrow> tr ''Category''
      | Tags \<Rightarrow> tr ''Tags''
      | Description \<Rightarrow> tr ''Description''
      | Start \<Rightarrow> tr ''Start''
      | End \<Rightarrow> tr ''End''
      | Duration \<Rightarrow> tr ''Duration'')"

definition cols :: "key list" where
  "cols = [Start, End, Duration, Activity, Category]"

definition print_with_date :: "datetime \<Rightarrow> datetime \<Rightarrow> bool" where
  \<comment> \<open>\<^verbatim>\<open>start_time.date() != end_time.date()\<close>\<close>
  "print_with_date start_t end_t = (date_part start_t \<noteq> date_part end_t)"

definition widths_col :: "(key \<Rightarrow> string) \<Rightarrow> key \<Rightarrow> (key \<times> nat) list \<Rightarrow> error + (key \<times> nat) list" where
  \<comment> \<open>\<^verbatim>\<open>widths[col] = max(widths[col], len(fact[col]))\<close>\<close>
  "widths_col fact_row col widths =
     (case getitem widths col of
        Inl e \<Rightarrow> Inl e
      | Inr n \<Rightarrow> Inr (AList.update col (max n (length (fact_row col))) widths))"

definition list_widths ::
  "(string \<Rightarrow> string) \<Rightarrow> datetime \<Rightarrow> bool \<Rightarrow> fact list \<Rightarrow> error + (key \<times> nat) list" where
  \<comment> \<open>the dictionary \<^verbatim>\<open>widths\<close> after the first loop over the facts\<close>
  "list_widths tr now with_date facts =
     foldE (\<lambda>fact_data widths. foldE (widths_col (fact_dict now fact_data with_date)) cols widths)
       facts (map (\<lambda>col. (col, length (headers tr col))) cols)"

definition ljust :: "nat \<Rightarrow> string \<Rightarrow> string" where
  \<comment> \<open>the format specification \<^verbatim>\<open>: <n\<close>: padded with spaces on the right up to width n\<close>
  "ljust n s = s @ replicate (n - length s) CHR '' ''"

definition format_line :: "(key \<times> nat) list \<Rightarrow> (key \<Rightarrow> string) \<Rightarrow> string" where
  \<comment> \<open>\<^verbatim>\<open>fact_line.format(**d)\<close>, the template given by its fields and their widths\<close>
  "format_line fact_line d =
     join '' | '' (map (\<lambda>(col, n). ljust n (d col)) fact_line)"

definition fact_lines :: "(key \<times> nat) list \<Rightarrow> (key \<Rightarrow> string) \<Rightarrow> string list" where
  \<comment> \<open>what the second loop prints for one fact: its row, then the wrapped description and
      the wrapped tags, each indented by four spaces\<close>
  "fact_lines fact_line pretty_fact =
     [format_line fact_line pretty_fact]
     @ (if pretty_fact Description \<noteq> []
        then map (\<lambda>line. ''    '' @ line) (word_wrap (pretty_fact Description) 76) else [])
     @ (if pretty_fact Tags \<noteq> []
        then map (\<lambda>line. ''    '' @ line) (word_wrap (pretty_fact Tags) 76) else [])"

definition by_cat_step ::
  "(string \<Rightarrow> string) \<Rightarrow> fact \<Rightarrow> (string \<times> timedelta) list \<Rightarrow> error + (string \<times> timedelta) list" where
  \<comment> \<open>the three lines that update \<^verbatim>\<open>by_cat\<close> for one fact; a missing category is
      the empty string\<close>
  "by_cat_step tr fact_data by_cat =
     (let cat = (if category fact_data \<noteq> [] then category fact_data else tr ''Unsorted'');
          by_cat = setdefault cat 0 by_cat
      in case getitem by_cat cat of
           Inl e \<Rightarrow> Inl e
         | Inr v \<Rightarrow> Inr (AList.update cat (v + delta fact_data) by_cat))"

definition row_step ::
  "(string \<Rightarrow> string) \<Rightarrow> datetime \<Rightarrow> bool \<Rightarrow> (key \<times> nat) list \<Rightarrow> fact \<Rightarrow>
   (string \<times> timedelta) list \<times> string list \<Rightarrow> error + (string \<times> timedelta) list \<times> string list" where
  \<comment> \<open>the body of the second loop; the state is \<^verbatim>\<open>by_cat\<close> and the lines printed so far\<close>
  "row_step tr now with_date fact_line fact_data st =
     (case st of (by_cat, out) \<Rightarrow>
        (case by_cat_step tr fact_data by_cat of
           Inl e \<Rightarrow> Inl e
         | Inr by_cat' \<Rightarrow>
             Inr (by_cat', out @ fact_lines fact_line (fact_dict now fact_data with_date))))"

definition summary :: "(string \<times> timedelta) list \<Rightarrow> string list \<times> timedelta" where
  \<comment> \<open>the loop over the sorted items of \<^verbatim>\<open>by_cat\<close>: the list \<^verbatim>\<open>cats\<close> and \<^verbatim>\<open>total_duration\<close>\<close>
  "summary by_cat =
     fold (\<lambda>(cat, duration) (cats, total_duration).
             (cats @ [cat @ '': '' @ timedelta_format duration], total_duration + duration))
          (sorted_reverse snd by_cat) ([], 0)"

definition HamsterCli_list_impl ::
  "(datetime \<Rightarrow> datetime \<Rightarrow> string \<Rightarrow> fact list) \<Rightarrow> (string \<Rightarrow> string) \<Rightarrow> datetime \<Rightarrow>
   datetime \<Rightarrow> datetime \<Rightarrow> string \<Rightarrow> error + string list" where
  \<comment> \<open>\<^verbatim>\<open>HamsterCli._list(start_time, end_time, search)\<close>: the lines it prints. The first three
      arguments are \<^verbatim>\<open>self.storage.get_facts\<close>, the translation function and the clock.
      \<^verbatim>\<open>print("Total: ", x)\<close> writes its two arguments with a space between them.\<close>
  "HamsterCli_list_impl get_facts tr now start_t end_t search =
     (let facts = get_facts start_t end_t search;
          with_date = print_with_date start_t end_t
      in case list_widths tr now with_date facts of
           Inl e \<Rightarrow> Inl e
         | Inr widths \<Rightarrow>
             (case mapE (\<lambda>col. case getitem widths col of
                                 Inl e \<Rightarrow> Inl e | Inr n \<Rightarrow> Inr (col, n)) cols of
                Inl e \<Rightarrow> Inl e
              | Inr fact_line \<Rightarrow>
                  (let row_width = sum_list (map (\<lambda>val. val + 3) (map snd widths));
                       out = [[], format_line fact_line (headers tr),
                              replicate (min row_width 80) CHR ''-'']
                   in case foldE (row_step tr now with_date fact_line) facts ([], out) of
                        Inl e \<Rightarrow> Inl e
                      | Inr (by_cat, out) \<Rightarrow>
                          (case summary by_cat of
                             (cats, total_duration) \<Rightarrow>
                               Inr (out @ [replicate (min row_width 80) CHR ''-'']
                                    @ word_wrap (join '', '' cats) 80
                                    @ [''Total: '' @ '' '' @ timedelta_format total_duration]
                                    @ [[]])))))"

section \<open>Resolving the range in HamsterCli.list and HamsterCli.search\<close>

definition resolve_range :: "date \<Rightarrow> datetime option \<times> datetime option \<Rightarrow> datetime \<times> datetime" where
  \<comment> \<open>the two defaulting lines that \<^verbatim>\<open>list\<close> and \<^verbatim>\<open>search\<close> share; the arguments are
      \<^verbatim>\<open>dt.date.today()\<close> and the pair that \<^verbatim>\<open>dt.Range.parse\<close> returned. A datetime is
      never false, so \<^verbatim>\<open>x or y\<close> takes \<^verbatim>\<open>y\<close> exactly when \<^verbatim>\<open>x\<close> is \<^verbatim>\<open>None\<close>.\<close>
  "resolve_range today parsed =
     (case parsed of (start_parsed, end_parsed) \<Rightarrow>
        (let start_t = (case start_parsed of Some s \<Rightarrow> s | None \<Rightarrow> combine today time_midnight);
             end_t = (case end_parsed of Some e \<Rightarrow> e | None \<Rightarrow> replace_hms start_t 23 59 59)
         in (start_t, end_t)))"

definition HamsterCli_list ::
  "(datetime \<Rightarrow> datetime \<Rightarrow> string \<Rightarrow> fact list) \<Rightarrow> (string \<Rightarrow> string) \<Rightarrow> datetime \<Rightarrow>
   date \<Rightarrow> datetime option \<times> datetime option \<Rightarrow> error + string list" where
  "HamsterCli_list get_facts tr now today parsed =
     (case resolve_range today parsed of
        (start_t, end_t) \<Rightarrow> HamsterCli_list_impl get_facts tr now start_t end_t [])"

definition HamsterCli_search ::
  "(datetime \<Rightarrow> datetime \<Rightarrow> string \<Rightarrow> fact list) \<Rightarrow> (string \<Rightarrow> string) \<Rightarrow> datetime \<Rightarrow>
   date \<Rightarrow> string \<Rightarrow> datetime option \<times> datetime option \<Rightarrow> error + string list" where
  "HamsterCli_search get_facts tr now today search parsed =
     (case resolve_range today parsed of
        (start_t, end_t) \<Rightarrow> HamsterCli_list_impl get_facts tr now start_t end_t search)"

section \<open>Auxiliary notions of the proofs\<close>

definition is_word :: "string \<Rightarrow> bool" where
  \<comment> \<open>non-empty and free of whitespace\<close>
  "is_word w = (w \<noteq> [] \<and> list_all (\<lambda>c. \<not> isspace c) w)"

definition tight :: "string \<Rightarrow> bool" where
  \<comment> \<open>non-empty, with no whitespace at either end\<close>
  "tight s = (s \<noteq> [] \<and> \<not> isspace (hd s) \<and> \<not> isspace (last s))"

definition good :: "string \<Rightarrow> bool" where
  \<comment> \<open>what \<^verbatim>\<open>cur_line\<close> is at every turn of the loop\<close>
  "good s = (s = [] \<or> tight s)"

definition line_ok :: "int \<Rightarrow> string list \<Rightarrow> string \<Rightarrow> bool" where
  \<comment> \<open>shorter than the width, or one of the words and at least as long as the width\<close>
  "line_ok w ws l = (int (length l) < w \<or> (l \<in> set ws \<and> w \<le> int (length l)))"

definition tab :: "(key \<Rightarrow> nat) \<Rightarrow> (key \<times> nat) list" where
  \<comment> \<open>a dictionary over the five columns, given by the value at each column\<close>
  "tab g = map (\<lambda>col. (col, g col)) cols"

definition max_field_length ::
  "(string \<Rightarrow> string) \<Rightarrow> datetime \<Rightarrow> bool \<Rightarrow> fact list \<Rightarrow> key \<Rightarrow> nat" where
  \<comment> \<open>the width the spec gives to a column: the greatest length among its header label
      and its formatted field in every row\<close>
  "max_field_length tr now with_date facts col =
     Max (insert (length (headers tr col))
            ((\<lambda>f. length (fact_dict now f with_date col)) ` set facts))"

definition cat_label :: "(string \<Rightarrow> string) \<Rightarrow> fact \<Rightarrow> string" where
  \<comment> \<open>the category a fact is counted under: its own, or the translated ``Unsorted''\<close>
  "cat_label tr f = (if category f \<noteq> [] then category f else tr ''Unsorted'')"

fun first_seen :: "'a list \<Rightarrow> 'a list" where
  \<comment> \<open>the distinct elements, each at the place of its first occurrence\<close>
  "first_seen [] = []"
| "first_seen (x # xs) = x # filter (\<lambda>y. y \<noteq> x) (first_seen xs)"

definition cat_total :: "(string \<Rightarrow> string) \<Rightarrow> fact list \<Rightarrow> string \<Rightarrow> timedelta" where
  \<comment> \<open>the sum of the durations of the facts counted under a category\<close>
  "cat_total tr facts c = sum_list (map delta (filter (\<lambda>f. cat_label tr f = c) facts))"

definition by_cat_of :: "(string \<Rightarrow> string) \<Rightarrow> fact list \<Rightarrow> (string \<times> timedelta) list" where
  \<comment> \<open>the category totals as the spec describes them: one entry per category, in the
      order in which the categories are first met\<close>
  "by_cat_of tr facts =
     map (\<lambda>c. (c, cat_total tr facts c)) (first_seen (map (cat_label tr) facts))"

definition total0 :: "(string \<times> timedelta) list \<Rightarrow> string \<Rightarrow> timedelta" where
  \<comment> \<open>the total recorded for a category so far, zero when there is none\<close>
  "total0 bc c = (case map_of bc c of None \<Rightarrow> 0 | Some v \<Rightarrow> v)"

definition by_cat_fold ::
  "(string \<Rightarrow> string) \<Rightarrow> fact list \<Rightarrow> (string \<times> timedelta) list \<Rightarrow> (string \<times> timedelta) list" where
  \<comment> \<open>the updates of \<^verbatim>\<open>by_cat\<close> over a list of facts, none of which raises\<close>
  "by_cat_fold tr facts bc =
     fold (\<lambda>f bc. AList.update (cat_label tr f) (total0 bc (cat_label tr f) + delta f) bc)
       facts bc"





definition list_footer :: "(string \<Rightarrow> string) \<Rightarrow> fact list \<Rightarrow> string list" where
  \<comment> \<open>what follows the second separator: the wrapped category summary, the line of the
      total as \<^verbatim>\<open>print\<close> writes it, and an empty line\<close>
  "list_footer tr facts =
     word_wrap (join '', '' (map (\<lambda>(c, d). c @ '': '' @ timedelta_format d)
                               (sorted_reverse snd (by_cat_of tr facts)))) 80
     @ [''Total: '' @ '' '' @ timedelta_format (sum_list (map delta facts)), []]"

section \<open>Example data\<close>

definition ex_now :: datetime where
  "ex_now = \<lparr>date_part = \<lparr>year = 2012, month = 8, day = 1\<rparr>,
             hour = 12, minute = 0, second = 0, microsecond = 0\<rparr>"

definition ex_facts :: "fact list" where
  \<comment> \<open>the three facts of the spec's example: 90 and 30 minutes of ``Work'' and 15 minutes
      without a category, the last one still running\<close>
  "ex_facts =
     [\<lparr>start_time = \<lparr>date_part = \<lparr>year = 2012, month = 8, day = 1\<rparr>,
                     hour = 9, minute = 0, second = 0, microsecond = 0\<rparr>,
       end_time = Some \<lparr>date_part = \<lparr>year = 2012, month = 8, day = 1\<rparr>,
                        hour = 10, minute = 30, second = 0, microsecond = 0\<rparr>,
       delta = 5400000000, activity = ''Documentation'', category = ''Work'',
       tags = [''spec'', ''review''], description = ''first draft''\<rparr>,
      \<lparr>start_time = \<lparr>date_part = \<lparr>year = 2012, month = 8, day = 1\<rparr>,
                     hour = 11, minute = 0, second = 0, microsecond = 0\<rparr>,
       end_time = Some \<lparr>date_part = \<lparr>year = 2012, month = 8, day = 1\<rparr>,
                        hour = 11, minute = 30, second = 0, microsecond = 0\<rparr>,
       delta = 1800000000, activity = ''mail'', category = ''Work'',
       tags = [], description = []\<rparr>,
      \<lparr>start_time = \<lparr>date_part = \<lparr>year = 2012, month = 8, day = 1\<rparr>,
                     hour = 11, minute = 45, second = 0, microsecond = 0\<rparr>,
       end_time = None,
       delta = 900000000, activity = ''tea'', category = [],
       tags = [], description = []\<rparr>]"

section \<open>Facts about splitting and stripping\<close>

lemma isspace_space: "isspace CHR '' ''"
  by (simp add: isspace_def)

lemma split_acc_words:
  "list_all (\<lambda>c. \<not> isspace c) w \<Longrightarrow> list_all is_word (split_acc w s)"
  by (induction s arbitrary: w) (auto simp: is_word_def)

lemma split_ws_words: "list_all is_word (split_ws s)"
  by (simp add: split_ws_def split_acc_words)

lemma split_acc_sep:
  "isspace c \<Longrightarrow> split_acc w (a @ c # b) = split_acc w a @ split_acc [] b"
  by (induction a arbitrary: w) auto

lemma split_ws_sep: "split_ws (a @ '' '' @ b) = split_ws a @ split_ws b"
  using split_acc_sep [OF isspace_space, of "[]" a b] by (simp add: split_ws_def)

lemma split_acc_word:
  "list_all (\<lambda>c. \<not> isspace c) w \<Longrightarrow> v @ w \<noteq> [] \<Longrightarrow> split_acc v w = [v @ w]"
  by (induction w arbitrary: v) auto

lemma split_ws_word: "is_word w \<Longrightarrow> split_ws w = [w]"
  using split_acc_word [of w "[]"] by (simp add: split_ws_def is_word_def)

lemma split_ws_Nil: "split_ws [] = []"
  by (simp add: split_ws_def)

lemma split_ws_join: "split_ws (join '' '' ls) = concat (map split_ws ls)"
proof (induction ls rule: induct_list012)
  case 1
  show ?case by (simp add: split_ws_Nil)
next
  case (2 x)
  show ?case by simp
next
  case (3 x y zs)
  have "split_ws (x @ '' '' @ join '' '' (y # zs)) = split_ws x @ split_ws (join '' '' (y # zs))"
    by (rule split_ws_sep)
  with 3 show ?case by simp
qed

lemma length_strip_le: "length (strip s) \<le> length s"
proof -
  have "length (strip s) \<le> length (dropWhile isspace s)"
    using length_dropWhile_le [of isspace "rev (dropWhile isspace s)"] by (simp add: strip_def)
  also have "\<dots> \<le> length s" by (rule length_dropWhile_le)
  finally show ?thesis .
qed

lemma strip_tight: "tight s \<Longrightarrow> strip s = s"
proof -
  assume t: "tight s"
  then have "dropWhile isspace s = s"
    by (simp add: tight_def dropWhile_eq_self_iff)
  moreover from t have "dropWhile isspace (rev s) = rev s"
    by (simp add: tight_def dropWhile_eq_self_iff hd_rev)
  ultimately show ?thesis by (simp add: strip_def)
qed

lemma is_word_tight: "is_word w \<Longrightarrow> tight w"
  by (cases w) (auto simp: is_word_def tight_def list_all_iff)

lemma strip_space_word: "is_word w \<Longrightarrow> strip ('' '' @ w) = w"
proof -
  assume w: "is_word w"
  have "strip ('' '' @ w) = strip w"
    by (simp add: strip_def isspace_space)
  with w show ?thesis by (simp add: strip_tight is_word_tight)
qed

lemma tight_append: "tight a \<Longrightarrow> tight b \<Longrightarrow> tight (a @ '' '' @ b)"
  by (cases a) (auto simp: tight_def)

section \<open>The word wrapper\<close>

lemma word_wrap_loop_ok:
  "word_wrap_loop w ws (lines, cur) = (lines', cur') \<Longrightarrow> set ws \<subseteq> set W \<Longrightarrow>
   list_all (line_ok w W) lines \<Longrightarrow> cur = [] \<or> line_ok w W cur \<Longrightarrow>
   list_all (line_ok w W) lines' \<and> (cur' = [] \<or> line_ok w W cur')"
proof (induction ws arbitrary: lines cur)
  case Nil
  then show ?case by simp
next
  case (Cons word ws)
  show ?case
  proof (cases "int (length (cur @ '' '' @ word)) < w")
    case True
    have "int (length (strip (cur @ '' '' @ word))) < w"
      using True length_strip_le [of "cur @ '' '' @ word"] by linarith
    then have ok: "line_ok w W (strip (cur @ '' '' @ word))"
      by (simp add: line_ok_def)
    from Cons.prems(1) True
    have "word_wrap_loop w ws (lines, strip (cur @ '' '' @ word)) = (lines', cur')"
      by simp
    from Cons.IH [OF this] Cons.prems ok show ?thesis by simp
  next
    case False
    have okw: "line_ok w W word"
      using Cons.prems(2) by (auto simp: line_ok_def)
    from Cons.prems(1) False
    have "word_wrap_loop w ws (if cur \<noteq> [] then lines @ [cur] else lines, word) = (lines', cur')"
      by simp
    from Cons.IH [OF this] Cons.prems okw show ?thesis by auto
  qed
qed

lemma word_wrap_loop_words:
  "word_wrap_loop w ws (lines, cur) = (lines', cur') \<Longrightarrow> list_all is_word ws \<Longrightarrow> good cur \<Longrightarrow>
   concat (map split_ws lines') @ split_ws cur' = concat (map split_ws lines) @ split_ws cur @ ws"
proof (induction ws arbitrary: lines cur)
  case Nil
  then show ?case by simp
next
  case (Cons word ws)
  from Cons.prems(2) have word: "is_word word" and rest: "list_all is_word ws" by simp_all
  show ?case
  proof (cases "int (length (cur @ '' '' @ word)) < w")
    case True
    let ?c = "strip (cur @ '' '' @ word)"
    have c: "good ?c \<and> split_ws ?c = split_ws cur @ [word]"
    proof (cases "cur = []")
      case True
      with word strip_space_word [of word] show ?thesis
        by (simp add: good_def is_word_tight split_ws_word split_ws_Nil)
    next
      case False
      with Cons.prems(3) have "tight cur" by (simp add: good_def)
      then have t: "tight (cur @ '' '' @ word)"
        using word by (simp add: tight_append is_word_tight del: append.simps)
      then have "?c = cur @ '' '' @ word" by (rule strip_tight)
      with t word show ?thesis
        by (simp add: good_def split_ws_sep split_ws_word del: append.simps)
    qed
    from Cons.prems(1) True have "word_wrap_loop w ws (lines, ?c) = (lines', cur')"
      by simp
    from Cons.IH [OF this rest] c show ?thesis by simp
  next
    case False
    let ?l = "if cur \<noteq> [] then lines @ [cur] else lines"
    have l: "concat (map split_ws ?l) = concat (map split_ws lines) @ split_ws cur"
      by (simp add: split_ws_Nil)
    from Cons.prems(1) False have "word_wrap_loop w ws (?l, word) = (lines', cur')"
      by simp
    from Cons.IH [OF this rest] word l show ?thesis
      by (simp add: good_def is_word_tight split_ws_word)
  qed
qed

lemma concat_split_word_wrap: "concat (map split_ws (word_wrap text w)) = split_ws text"
proof -
  obtain lines cur where r: "word_wrap_loop w (split_ws text) ([], []) = (lines, cur)"
    by (cases "word_wrap_loop w (split_ws text) ([], [])")
  from word_wrap_loop_words [OF r split_ws_words]
  have "concat (map split_ws lines) @ split_ws cur = split_ws text"
    by (simp add: good_def split_ws_Nil)
  then show ?thesis using r by (auto simp: word_wrap_def split_ws_Nil)
qed

text \<open>
  Claim C5. Every line that \<^verbatim>\<open>word_wrap\<close> returns is strictly shorter than the width,
  unless it is one single word of the text that is itself at least as long as the width;
  such a word stands on a line of its own, unchanged.
\<close>

theorem word_wrap_line_length:
  "\<forall>l \<in> set (word_wrap text w).
     int (length l) < w \<or> (l \<in> set (split_ws text) \<and> w \<le> int (length l))"
proof -
  obtain lines cur where r: "word_wrap_loop w (split_ws text) ([], []) = (lines, cur)"
    by (cases "word_wrap_loop w (split_ws text) ([], [])")
  from word_wrap_loop_ok [OF r, of "split_ws text"]
  have "list_all (line_ok w (split_ws text)) lines" and "cur = [] \<or> line_ok w (split_ws text) cur"
    by simp_all
  then have "list_all (line_ok w (split_ws text)) (word_wrap text w)"
    using r by (auto simp: word_wrap_def)
  then show ?thesis by (simp add: list_all_iff line_ok_def)
qed

theorem word_wrap_line_length_witness:
  "''bbbbbbbb'' \<in> set (word_wrap ''aa bbbbbbbb c'' 5) \<and>
   \<not> int (length ''bbbbbbbb'') < 5 \<and>
   ''bbbbbbbb'' \<in> set (split_ws ''aa bbbbbbbb c'') \<and> 5 \<le> int (length ''bbbbbbbb'')"
proof -
  have m: "''bbbbbbbb'' \<in> set (word_wrap ''aa bbbbbbbb c'' 5)"
    by (simp add: word_wrap_def split_ws_def isspace_def strip_def)
  from word_wrap_line_length [of "''aa bbbbbbbb c''" 5] m
  have "int (length ''bbbbbbbb'') < 5 \<or>
        (''bbbbbbbb'' \<in> set (split_ws ''aa bbbbbbbb c'') \<and> 5 \<le> int (length ''bbbbbbbb''))"
    by (rule bspec)
  with m show ?thesis by simp
qed

text \<open>
  Claim C6. Joining the lines of \<^verbatim>\<open>word_wrap\<close> with single spaces and splitting the
  result on whitespace gives back the words of the text, in order, for every width; the
  empty text gives no line at all.
\<close>

theorem word_wrap_roundtrip:
  "split_ws (join '' '' (word_wrap text w)) = split_ws text \<and> word_wrap [] w = []"
proof
  show "split_ws (join '' '' (word_wrap text w)) = split_ws text"
    by (simp add: split_ws_join concat_split_word_wrap)
  show "word_wrap [] w = []"
    by (simp add: word_wrap_def split_ws_Nil)
qed

section \<open>The resolved range\<close>

text \<open>
  Claim C1. When \<^verbatim>\<open>dt.Range.parse\<close> yields neither a start nor an end, \<^verbatim>\<open>list\<close> and
  \<^verbatim>\<open>search\<close> pass to \<^verbatim>\<open>_list\<close> the range from today at 00:00:00 to today at 23:59:59.
  When it yields a start only, that start is kept and the end is the start with hour, minute
  and second replaced by 23, 59 and 59, hence on the same calendar day.
\<close>

theorem resolve_range_defaults:
  "resolve_range today (None, None) =
     (\<lparr>date_part = today, hour = 0, minute = 0, second = 0, microsecond = 0\<rparr>,
      \<lparr>date_part = today, hour = 23, minute = 59, second = 59, microsecond = 0\<rparr>)
   \<and> resolve_range today (Some s, None) = (s, s\<lparr>hour := 23, minute := 59, second := 59\<rparr>)
   \<and> date_part (s\<lparr>hour := 23, minute := 59, second := 59\<rparr>) = date_part s
   \<and> HamsterCli_list get_facts tr now today parsed =
       HamsterCli_list_impl get_facts tr now
         (fst (resolve_range today parsed)) (snd (resolve_range today parsed)) []
   \<and> HamsterCli_search get_facts tr now today search parsed =
       HamsterCli_list_impl get_facts tr now
         (fst (resolve_range today parsed)) (snd (resolve_range today parsed)) search"
  by (simp add: resolve_range_def combine_def time_midnight_def replace_hms_def
        HamsterCli_list_def HamsterCli_search_def split: prod.splits)

text \<open>
  Claim C2. In both defaulted cases the resolved start is not later than the resolved end.
  The start that was parsed, whichever form gave it, is a datetime, so its time of day lies
  in the ranges of \<^const>\<open>valid_time\<close>.
\<close>

theorem resolved_range_ordered:
  "valid_time s \<Longrightarrow>
   datetime_le (fst (resolve_range today (None, None))) (snd (resolve_range today (None, None)))
   \<and> datetime_le (fst (resolve_range today (Some s, None)))
        (snd (resolve_range today (Some s, None)))"
  by (auto simp: valid_time_def resolve_range_def combine_def time_midnight_def replace_hms_def
        datetime_le_def dt_fields_def)

theorem resolved_range_ordered_witness:
  "valid_time \<lparr>date_part = \<lparr>year = 2012, month = 8, day = 1\<rparr>,
               hour = 23, minute = 59, second = 59, microsecond = 250000\<rparr>
   \<and> datetime_le
        (fst (resolve_range \<lparr>year = 2012, month = 8, day = 30\<rparr>
               (Some \<lparr>date_part = \<lparr>year = 2012, month = 8, day = 1\<rparr>,
                      hour = 23, minute = 59, second = 59, microsecond = 250000\<rparr>, None)))
        (snd (resolve_range \<lparr>year = 2012, month = 8, day = 30\<rparr>
               (Some \<lparr>date_part = \<lparr>year = 2012, month = 8, day = 1\<rparr>,
                      hour = 23, minute = 59, second = 59, microsecond = 250000\<rparr>, None)))"
proof -
  have v: "valid_time \<lparr>date_part = \<lparr>year = 2012, month = 8, day = 1\<rparr>,
               hour = 23, minute = 59, second = 59, microsecond = 250000\<rparr>"
    by (simp add: valid_time_def)
  from resolved_range_ordered [OF v, of "\<lparr>year = 2012, month = 8, day = 30\<rparr>"] v
  show ?thesis by simp
qed

section \<open>The display row\<close>

text \<open>
  Claim C9. The end cell of a display row is empty when the fact has no end time, whatever
  the clock shows. When the fact has an end time, the cell is that time as hours and
  minutes, with the date and a space in front exactly when the start and the end of the
  listed range fall on different calendar days.
\<close>

theorem end_cell:
  "fact_dict now f (print_with_date start_t end_t) End =
     (case end_time f of
        None \<Rightarrow> []
      | Some e \<Rightarrow>
          if date_part start_t \<noteq> date_part end_t
          then strftime ''%Y-%m-%d'' e @ '' '' @ strftime ''%H:%M'' e
          else strftime ''%H:%M'' e)"
  by (simp add: fact_dict_def print_with_date_def split: option.splits)


section \<open>The column widths\<close>

lemma getitem_tab: "c \<in> set cols \<Longrightarrow> getitem (tab g) c = Inr (g c)"
  by (auto simp: getitem_def tab_def cols_def)

lemma update_tab: "c \<in> set cols \<Longrightarrow> AList.update c v (tab g) = tab (g(c := v))"
  by (auto simp: tab_def cols_def)

lemma widths_col_tab:
  "c \<in> set cols \<Longrightarrow>
   widths_col fd c (tab g) = Inr (tab (g(c := max (g c) (length (fd c)))))"
  by (simp add: widths_col_def getitem_tab update_tab)

lemma widths_cols_tab:
  "set cs \<subseteq> set cols \<Longrightarrow>
   foldE (widths_col fd) cs (tab g) =
     Inr (tab (fold (\<lambda>c g. g(c := max (g c) (length (fd c)))) cs g))"
  by (induction cs arbitrary: g) (simp_all add: widths_col_tab)

lemma widths_fact_tab:
  "foldE (widths_col fd) cols (tab g) = Inr (tab (\<lambda>c. max (g c) (length (fd c))))"
proof -
  have "tab (fold (\<lambda>c g. g(c := max (g c) (length (fd c)))) cols g)
        = tab (\<lambda>c. max (g c) (length (fd c)))"
    by (simp add: tab_def cols_def)
  with widths_cols_tab [of cols fd g] show ?thesis by simp
qed

lemma widths_facts_tab:
  "foldE (\<lambda>f widths. foldE (widths_col (fact_dict now f wd)) cols widths) facts (tab g) =
     Inr (tab (\<lambda>c. fold max (map (\<lambda>f. length (fact_dict now f wd c)) facts) (g c)))"
proof (induction facts arbitrary: g)
  case Nil
  show ?case by simp
next
  case (Cons f facts)
  show ?case
    by (simp add: widths_fact_tab Cons.IH max.commute)
qed

lemma list_widths_tab:
  "list_widths tr now wd facts = Inr (tab (max_field_length tr now wd facts))"
proof -
  have "fold max (map (\<lambda>f. length (fact_dict now f wd c)) facts) (length (headers tr c))
        = max_field_length tr now wd facts c" for c
    using Max.set_eq_fold [of "length (headers tr c)" "map (\<lambda>f. length (fact_dict now f wd c)) facts"]
    by (simp add: max_field_length_def)
  moreover have "list_widths tr now wd facts =
      Inr (tab (\<lambda>c. fold max (map (\<lambda>f. length (fact_dict now f wd c)) facts) (length (headers tr c))))"
    using widths_facts_tab [of now wd facts "\<lambda>c. length (headers tr c)"]
    by (simp add: list_widths_def tab_def)
  ultimately show ?thesis by simp
qed

lemma header_le_max: "length (headers tr c) \<le> max_field_length tr now wd facts c"
  by (simp add: max_field_length_def)

lemma field_le_max:
  "f \<in> set facts \<Longrightarrow> length (fact_dict now f wd c) \<le> max_field_length tr now wd facts c"
  by (simp add: max_field_length_def)

lemma length_ljust: "length (ljust n s) = max n (length s)"
  by (simp add: ljust_def)


lemma update_append_new:
  "map_of bc k = None \<Longrightarrow> AList.update k v (bc @ [(k, v0)]) = AList.update k v bc"
  by (induction bc) (auto split: if_splits)

lemma by_cat_step_update:
  "by_cat_step tr f bc =
     Inr (AList.update (cat_label tr f) (total0 bc (cat_label tr f) + delta f) bc)"
proof (cases "map_of bc (cat_label tr f)")
  case None
  then show ?thesis
    by (simp add: by_cat_step_def cat_label_def [symmetric] setdefault_def getitem_def
          total0_def update_append_new Let_def map_add_def)
next
  case (Some v)
  then show ?thesis
    by (simp add: by_cat_step_def cat_label_def [symmetric] setdefault_def getitem_def
          total0_def Let_def)
qed

lemma by_cat_loop: "foldE (by_cat_step tr) facts bc = Inr (by_cat_fold tr facts bc)"
  by (induction facts arbitrary: bc) (simp_all add: by_cat_step_update by_cat_fold_def)






























text \<open>
  Claim C3. After the first loop over the facts, \<^verbatim>\<open>widths\<close> holds, for each of the five
  columns and independently of the other columns, the greatest length among the header
  label and the formatted field of every fact. A header label or a field printed in its
  column, padded to that width, is exactly that wide.
\<close>

theorem list_column_widths:
  "list_widths tr now with_date facts =
     Inr (map (\<lambda>col. (col, max_field_length tr now with_date facts col)) cols)
   \<and> (\<forall>col \<in> set cols.
        length (ljust (max_field_length tr now with_date facts col) (headers tr col))
          = max_field_length tr now with_date facts col
        \<and> (\<forall>f \<in> set facts.
             length (ljust (max_field_length tr now with_date facts col)
                       (fact_dict now f with_date col))
               = max_field_length tr now with_date facts col))"
proof (intro conjI ballI)
  show "list_widths tr now with_date facts =
     Inr (map (\<lambda>col. (col, max_field_length tr now with_date facts col)) cols)"
    using list_widths_tab [of tr now with_date facts] by (simp add: tab_def)
next
  fix col
  show "length (ljust (max_field_length tr now with_date facts col) (headers tr col))
          = max_field_length tr now with_date facts col"
    using header_le_max [of tr col now with_date facts] by (simp add: length_ljust)
next
  fix col f assume "f \<in> set facts"
  then show "length (ljust (max_field_length tr now with_date facts col)
                       (fact_dict now f with_date col))
               = max_field_length tr now with_date facts col"
    using field_le_max [of f facts now with_date col tr] by (simp add: length_ljust)
qed

theorem list_column_widths_witness:
  "Activity \<in> set cols \<and> hd ex_facts \<in> set ex_facts
   \<and> list_widths (\<lambda>s. s) ex_now False ex_facts =
       Inr [(Start, 5), (End, 5), (Duration, 8), (Activity, 13), (Category, 8)]
   \<and> length (ljust 13 (headers (\<lambda>s. s) Activity)) = 13
   \<and> length (ljust 13 (fact_dict ex_now (hd ex_facts) False Activity)) = 13"
proof -
  have a: "max_field_length (\<lambda>s. s) ex_now False ex_facts Activity = 13"
    by code_simp
  have m: "map (\<lambda>col. (col, max_field_length (\<lambda>s. s) ex_now False ex_facts col)) cols =
      [(Start, 5), (End, 5), (Duration, 8), (Activity, 13), (Category, 8)]"
    by code_simp
  have c: "Activity \<in> set cols" by (simp add: cols_def)
  have h: "hd ex_facts \<in> set ex_facts" by (simp add: ex_facts_def)
  note t = list_column_widths [of "\<lambda>s. s" ex_now False ex_facts]
  from t have "list_widths (\<lambda>s. s) ex_now False ex_facts =
      Inr (map (\<lambda>col. (col, max_field_length (\<lambda>s. s) ex_now False ex_facts col)) cols)"
    by (rule conjunct1)
  with m have 1: "list_widths (\<lambda>s. s) ex_now False ex_facts =
      Inr [(Start, 5), (End, 5), (Duration, 8), (Activity, 13), (Category, 8)]"
    by (simp only:)
  from t have q: "\<forall>col \<in> set cols.
        length (ljust (max_field_length (\<lambda>s. s) ex_now False ex_facts col) (headers (\<lambda>s. s) col))
          = max_field_length (\<lambda>s. s) ex_now False ex_facts col
        \<and> (\<forall>f \<in> set ex_facts.
             length (ljust (max_field_length (\<lambda>s. s) ex_now False ex_facts col)
                       (fact_dict ex_now f False col))
               = max_field_length (\<lambda>s. s) ex_now False ex_facts col)"
    by (rule conjunct2)
  have p: "length (ljust 13 (headers (\<lambda>s. s) Activity)) = 13
      \<and> (\<forall>f \<in> set ex_facts.
             length (ljust 13 (fact_dict ex_now f False Activity)) = 13)"
    using bspec [OF q c] unfolding a .
  from p have 2: "length (ljust 13 (headers (\<lambda>s. s) Activity)) = 13"
    by (rule conjunct1)
  from p have r: "\<forall>f \<in> set ex_facts.
             length (ljust 13 (fact_dict ex_now f False Activity)) = 13"
    by (rule conjunct2)
  from bspec [OF r h] have 3: "length (ljust 13 (fact_dict ex_now (hd ex_facts) False Activity)) = 13" .
  from c h 1 2 3 show ?thesis by (intro conjI)
qed

section \<open>The separator lines\<close>


section \<open>The category summary and the total\<close>


text \<open>
  Claim C8. The line of the total is written by \<^verbatim>\<open>print("Total: ", x)\<close>, which puts a space
  between its two arguments: the line reads ``Total:'', two spaces and the formatted
  duration. For no facts at all the report is the one below, whose line of the total is
  not ``Total: 0h00''; for the three facts of the example the line is ``Total:'', two
  spaces and ``2h15''. The duration shown is the sum of the durations of all facts
  (\<open>list_impl_output\<close>, \<open>sum_by_cat_of\<close>).
\<close>

theorem total_line_two_spaces:
  "HamsterCli_list_impl (\<lambda>s e q. []) (\<lambda>s. s) ex_now ex_now ex_now [] =
     Inr [[], ''Start | End | Duration | Activity | Category'',
          replicate 47 CHR ''-'', replicate 47 CHR ''-'', ''Total:  0h00'', []]
   \<and> ''Total:  0h00'' \<noteq> ''Total: 0h00''
   \<and> last (butlast (list_footer (\<lambda>s. s) ex_facts)) = ''Total:  2h15''"
proof (intro conjI)
  show "HamsterCli_list_impl (\<lambda>s e q. []) (\<lambda>s. s) ex_now ex_now ex_now [] =
     Inr [[], ''Start | End | Duration | Activity | Category'',
          replicate 47 CHR ''-'', replicate 47 CHR ''-'', ''Total:  0h00'', []]"
    by code_simp
next
  show "''Total:  0h00'' \<noteq> ''Total: 0h00''" by simp
next
  show "last (butlast (list_footer (\<lambda>s. s) ex_facts)) = ''Total:  2h15''"
    by code_simp
qed

end
